theory Spec2Isabelle
  imports Main
begin

section \<open>The editor pages of archive-bot (src/util/editor)\<close>

text \<open>
  The pages, their components, the guards and the asyncio tasks are Python objects
  that are shared by reference. They live in stores indexed by an object identity
  (a natural number, the way \<^verbatim>\<open>id(obj)\<close> tells objects apart); a store is a
  total function and a counter gives the next unused identity, so that constructing
  an object is the only way to obtain a new reference. What the code does to the
  outside (calls of the overridable hooks, messages sent through the host) is
  appended to a trace, which lets a statement count the calls and read their order.
\<close>

subsection \<open>Objects\<close>

type_synonym ref = nat
type_synonym iref = nat
type_synonym tref = nat
type_synonym gref = nat

datatype exn = KeyError | ValueError | TypeError | IndexError | AttributeError
  | StopIteration | RuntimeError | OtherError nat

datatype pyval = VNone | VBool bool | VRef ref | VOther nat

type_synonym result = "exn + pyval"

text \<open>
  The coroutine functions that the source stores in components. \<open>UserFn\<close> stands for
  the callbacks of the concrete page classes, which are not part of the library.
\<close>

datatype fn = CloseInteraction | MenuSelectCallback | BackToParent | BackToTop | UserFn nat

text \<open>
  A declared callback with the two attributes that \<^verbatim>\<open>disable_update\<close> may have set
  on the function: \<open>None\<close> is a missing attribute (\<^verbatim>\<open>hasattr\<close> is false).
\<close>

record fn_decl =
  fn_of :: fn
  editor_disable_update :: "bool option"
  editor_disable_message_update :: "bool option"

text \<open>
  \<^verbatim>\<open>disable_update(func, disable_update=True, disable_message_update=False)\<close> marks
  the function and returns it.
\<close>

definition disable_update :: "bool \<Rightarrow> bool \<Rightarrow> fn_decl \<Rightarrow> fn_decl" where
  "disable_update du dmu decorator_func =
     decorator_func\<lparr>editor_disable_update := Some du,
                    editor_disable_message_update := Some dmu\<rparr>"

definition plain_fn :: "fn \<Rightarrow> fn_decl" where
  "plain_fn f = \<lparr>fn_of = f, editor_disable_update = None,
                 editor_disable_message_update = None\<rparr>"

text \<open>
  What \<^verbatim>\<open>item.callback\<close> holds: the declared function bound to its view by the host
  library, or the closure \<^verbatim>\<open>wrapper\<close> that \<^verbatim>\<open>_wraps_update(editor, func)\<close> returns.
  The host library binds a declared function in an object of its own, which has fixed
  slots (the function, the view, the item) and forwards no attribute lookup: the
  attributes that \<^verbatim>\<open>disable_update\<close> set on the function are not attributes of
  \<^verbatim>\<open>item.callback\<close>, and \<^verbatim>\<open>hasattr\<close> is false there. \<^verbatim>\<open>functools.wraps\<close> copies to
  the wrapper the attributes that \<^verbatim>\<open>func\<close> itself has.
\<close>

datatype callback = Bound ref fn_decl | Wrapper ref callback

fun attr_disable_update :: "callback \<Rightarrow> bool option" where
  "attr_disable_update (Bound v d) = None"
| "attr_disable_update (Wrapper e func) = attr_disable_update func"

fun attr_disable_message_update :: "callback \<Rightarrow> bool option" where
  "attr_disable_message_update (Bound v d) = None"
| "attr_disable_message_update (Wrapper e func) = attr_disable_message_update func"

text \<open>\<^verbatim>\<open>hasattr(func, a) and func.a\<close>\<close>

definition truthy_attr :: "bool option \<Rightarrow> bool" where
  "truthy_attr a = (case a of None \<Rightarrow> False | Some b \<Rightarrow> b)"

fun wrap_depth :: "callback \<Rightarrow> nat" where
  "wrap_depth (Bound v d) = 0"
| "wrap_depth (Wrapper e func) = Suc (wrap_depth func)"

record item =
  disabled :: bool
  callback :: callback

text \<open>
  A page class: the identity of the class object, the library class it derives from,
  the callbacks its body declares, the \<^verbatim>\<open>CHILDREN\<close> tuple and the class keywords.
\<close>

datatype kind = Editor | Switchable | Child | Parent | Menu | Submenu | Closable

datatype pclass = PClass
  (cid: int)
  (kind: kind)
  (declared: "fn_decl list")
  (CHILDREN: "pclass list")
  (resets_message_content: bool)
  (close_timeout_message_arg: "string option")

record page =
  pcls :: pclass
  message :: "nat option"
  embed :: "nat option"
  children :: "iref list"
  parent :: "ref option"
  child_instances :: "pclass \<Rightarrow> ref option"
  ending_task :: "tref option"
  finished :: bool

record task =
  on_end_of :: ref
  completed :: bool

record guard =
  disabled_items :: "iref list"
  editor :: "ref option"

datatype event =
    Update ref
  | UpdateMessage ref
  | LogWarning string
  | LogError string
  | MessageEdit nat bool "nat option" ref
  | SendModal
  | FollowupSend string
  | SendMessage string
  | Defer
  | OnClose ref
  | OnEndStarted ref
  | OnEndDone ref

record world =
  pages :: "ref \<Rightarrow> page"
  next_ref :: ref
  items :: "iref \<Rightarrow> item"
  next_iref :: iref
  tasks :: "tref \<Rightarrow> task"
  next_tref :: tref
  guards :: "gref \<Rightarrow> guard"
  next_gref :: gref
  trace :: "event list"

definition emit :: "event list \<Rightarrow> world \<Rightarrow> world" where
  "emit es w = w\<lparr>trace := trace w @ es\<rparr>"

definition set_page :: "ref \<Rightarrow> (page \<Rightarrow> page) \<Rightarrow> world \<Rightarrow> world" where
  "set_page r f w = w\<lparr>pages := (pages w)(r := f (pages w r))\<rparr>"

definition set_item :: "iref \<Rightarrow> (item \<Rightarrow> item) \<Rightarrow> world \<Rightarrow> world" where
  "set_item i f w = w\<lparr>items := (items w)(i := f (items w i))\<rparr>"

definition set_guard :: "gref \<Rightarrow> (guard \<Rightarrow> guard) \<Rightarrow> world \<Rightarrow> world" where
  "set_guard g f w = w\<lparr>guards := (guards w)(g := f (guards w g))\<rparr>"

subsection \<open>base.py: EditorPage\<close>

text \<open>\<^verbatim>\<open>EditorPage.update\<close>: the body is empty; the call is recorded.\<close>

definition update :: "ref \<Rightarrow> world \<Rightarrow> world" where
  "update self w = emit [Update self] w"

text \<open>
  \<^verbatim>\<open>EditorPage.update_message\<close>: a warning and nothing else without a message,
  otherwise one \<^verbatim>\<open>message.edit(content=..., embed=self.embed, view=self)\<close>.
\<close>

definition update_message :: "ref \<Rightarrow> world \<Rightarrow> world" where
  "update_message self w =
     (case message (pages w self) of
        None \<Rightarrow>
          emit [UpdateMessage self,
                LogWarning ''EditorPage.update_message called without set message!''] w
      | Some m \<Rightarrow>
          emit [UpdateMessage self,
                MessageEdit m (resets_message_content (pcls (pages w self)))
                  (embed (pages w self)) self] w)"

text \<open>\<^verbatim>\<open>EditorPage.set_component_state\<close>\<close>

definition set_component_state :: "ref \<Rightarrow> bool \<Rightarrow> world \<Rightarrow> world" where
  "set_component_state self state w =
     update_message self
       (fold (\<lambda>i. set_item i (\<lambda>it. it\<lparr>disabled := state\<rparr>)) (children (pages w self)) w)"

text \<open>
  The components a class declares: those of the library class it derives from
  (the close button of \<^verbatim>\<open>ClosableEditor\<close>, marked by
  \<^verbatim>\<open>@disable_update(disable_update=True, disable_message_update=True)\<close>; the two
  buttons of \<^verbatim>\<open>SubmenuPage\<close>), then its own.
\<close>

definition close_button :: fn_decl where
  "close_button = disable_update True True (plain_fn CloseInteraction)"

definition library_components :: "kind \<Rightarrow> fn_decl list" where
  "library_components k =
     (case k of
        Closable \<Rightarrow> [close_button]
      | Submenu \<Rightarrow> [plain_fn BackToParent, plain_fn BackToTop]
      | _ \<Rightarrow> [])"

definition class_components :: "pclass \<Rightarrow> fn_decl list" where
  "class_components c = library_components (kind c) @ declared c"

text \<open>
  \<^verbatim>\<open>View.__init__\<close> of the host library, as far as the pages rely on it: one new,
  enabled component per declared callback, bound to the view, in declaration order.
\<close>

fun init_children :: "ref \<Rightarrow> fn_decl list \<Rightarrow> world \<Rightarrow> world" where
  "init_children self [] w = w"
| "init_children self (d # ds) w =
     init_children self ds
       (w\<lparr>items := (items w)(next_iref w := \<lparr>disabled = False, callback = Bound self d\<rparr>),
          next_iref := Suc (next_iref w),
          pages := (pages w)(self := (pages w self)
                      \<lparr>children := children (pages w self) @ [next_iref w]\<rparr>)\<rparr>)"

definition View_init :: "ref \<Rightarrow> world \<Rightarrow> world" where
  "View_init self w =
     init_children self (class_components (pcls (pages w self)))
       (set_page self (\<lambda>p. p\<lparr>children := [], finished := False\<rparr>) w)"

text \<open>\<^verbatim>\<open>View.add_item\<close>\<close>

definition add_item :: "ref \<Rightarrow> item \<Rightarrow> world \<Rightarrow> world" where
  "add_item self it w =
     w\<lparr>items := (items w)(next_iref w := it),
       next_iref := Suc (next_iref w),
       pages := (pages w)(self := (pages w self)
                   \<lparr>children := children (pages w self) @ [next_iref w]\<rparr>)\<rparr>"

text \<open>\<^verbatim>\<open>View.stop\<close>\<close>

definition View_stop :: "ref \<Rightarrow> world \<Rightarrow> world" where
  "View_stop self w = set_page self (\<lambda>p. p\<lparr>finished := True\<rparr>) w"

text \<open>\<^verbatim>\<open>_wraps_update(editor, func)\<close> returns the closure.\<close>

definition wraps_update :: "ref \<Rightarrow> callback \<Rightarrow> callback" where
  "wraps_update editor_ref func = Wrapper editor_ref func"

text \<open>
  \<^verbatim>\<open>EditorPage.__init__\<close>: message and embed, the view's own initialisation, then
  \<^verbatim>\<open>for item in self.children: item.callback = _wraps_update(self, item.callback)\<close>.
\<close>

definition EditorPage_init :: "ref \<Rightarrow> nat option \<Rightarrow> nat option \<Rightarrow> world \<Rightarrow> world" where
  "EditorPage_init self msg emb w =
     (let w1 = set_page self (\<lambda>p. p\<lparr>message := msg, embed := emb\<rparr>) w;
          w2 = View_init self w1
      in fold (\<lambda>i. set_item i (\<lambda>it. it\<lparr>callback := wraps_update self (callback it)\<rparr>))
           (children (pages w2 self)) w2)"

text \<open>
  The closure of \<^verbatim>\<open>_wraps_update\<close>, run: \<^verbatim>\<open>response = await func(...)\<close>, where an
  exception leaves at once; then the two phases, each unless its attribute is present
  and true. \<open>body\<close> runs a declared function for the view it is bound to.
\<close>

fun run_callback :: "(ref \<Rightarrow> fn \<Rightarrow> world \<Rightarrow> result \<times> world) \<Rightarrow> callback \<Rightarrow> world
    \<Rightarrow> result \<times> world" where
  "run_callback body (Bound v d) w = body v (fn_of d) w"
| "run_callback body (Wrapper editor_ref func) w =
     (case run_callback body func w of
        (Inl e, w1) \<Rightarrow> (Inl e, w1)
      | (Inr response, w1) \<Rightarrow>
          (let w2 = (if truthy_attr (attr_disable_update func) then w1
                     else update editor_ref w1);
               w3 = (if truthy_attr (attr_disable_message_update func) then w2
                     else update_message editor_ref w2)
           in (Inr response, w3)))"

subsection \<open>base.py: disable\_when\_processing\<close>

text \<open>
  \<^verbatim>\<open>disable_when_processing.__init__\<close> runs when the decorator is applied, in the
  class body: it refuses a function that is not a coroutine function and otherwise
  creates the guard object, with an empty list and no editor.
\<close>

definition disable_when_processing_init :: "bool \<Rightarrow> world \<Rightarrow> (exn + gref) \<times> world" where
  "disable_when_processing_init iscoroutinefunction w =
     (if \<not> iscoroutinefunction then (Inl ValueError, w)
      else (Inr (next_gref w),
            w\<lparr>guards := (guards w)(next_gref w := \<lparr>disabled_items = [], editor = None\<rparr>),
              next_gref := Suc (next_gref w)\<rparr>))"

text \<open>The loop of \<^verbatim>\<open>__aenter__\<close> over \<^verbatim>\<open>self.editor.children\<close>.\<close>

fun aenter_loop :: "gref \<Rightarrow> iref list \<Rightarrow> world \<Rightarrow> world" where
  "aenter_loop g [] w = w"
| "aenter_loop g (i # rest) w =
     aenter_loop g rest
       (set_item i (\<lambda>it. it\<lparr>disabled := True\<rparr>)
          (if \<not> disabled (items w i)
           then set_guard g (\<lambda>gd. gd\<lparr>disabled_items := disabled_items gd @ [i]\<rparr>) w
           else w))"

definition aenter :: "gref \<Rightarrow> world \<Rightarrow> (exn + unit) \<times> world" where
  "aenter g w =
     (case editor (guards w g) of
        None \<Rightarrow> (Inl AttributeError, w)
      | Some e \<Rightarrow> (Inr (), update_message e (aenter_loop g (children (pages w e)) w)))"

text \<open>The loop of \<^verbatim>\<open>__aexit__\<close> over \<^verbatim>\<open>self.disabled_items\<close>.\<close>

definition aexit_loop :: "iref list \<Rightarrow> world \<Rightarrow> world" where
  "aexit_loop remembered w = fold (\<lambda>i. set_item i (\<lambda>it. it\<lparr>disabled := False\<rparr>)) remembered w"

definition aexit :: "gref \<Rightarrow> world \<Rightarrow> (exn + unit) \<times> world" where
  "aexit g w =
     (let w1 = aexit_loop (disabled_items (guards w g)) w;
          w2 = set_guard g (\<lambda>gd. gd\<lparr>disabled_items := []\<rparr>) w1
      in case editor (guards w2 g) of
           None \<Rightarrow> (Inl AttributeError, w2)
         | Some e \<Rightarrow> (Inr (), update_message e w2))"

text \<open>
  \<^verbatim>\<open>disable_when_processing.__call__\<close>: \<^verbatim>\<open>self.editor = editor\<close>, then
  \<^verbatim>\<open>async with self: return await self.func(editor, ...)\<close>. The exit step runs
  whether \<open>func\<close> returns or raises, and its \<open>None\<close> lets the exception pass.
\<close>

definition guard_call :: "gref \<Rightarrow> ref \<Rightarrow> (world \<Rightarrow> result \<times> world) \<Rightarrow> world \<Rightarrow> result \<times> world" where
  "guard_call g editor_ref func w =
     (case aenter g (set_guard g (\<lambda>gd. gd\<lparr>editor := Some editor_ref\<rparr>) w) of
        (Inl e, w1) \<Rightarrow> (Inl e, w1)
      | (Inr u, w1) \<Rightarrow>
          (case func w1 of
             (res, w2) \<Rightarrow>
               (case aexit g w2 of
                  (Inl e, w3) \<Rightarrow> (Inl e, w3)
                | (Inr u', w3) \<Rightarrow> (res, w3))))"

text \<open>
  The first two steps of \<^verbatim>\<open>__call__\<close>, named: the editor is stored in the guard and
  \<^verbatim>\<open>__aenter__\<close> runs, which cannot fail then.
\<close>

definition enter :: "gref \<Rightarrow> ref \<Rightarrow> world \<Rightarrow> world" where
  "enter g e w = snd (aenter g (set_guard g (\<lambda>gd. gd\<lparr>editor := Some e\<rparr>) w))"

subsection \<open>hierarchy.py\<close>

text \<open>
  Constructing a page: a new object, then the \<^verbatim>\<open>__init__\<close> of its library class.
  \<^verbatim>\<open>ChildPage.__init__\<close> requires the keyword \<^verbatim>\<open>parent\<close> and the others do not
  take it (a \<^verbatim>\<open>TypeError\<close> either way).
\<close>

definition blank_page :: "pclass \<Rightarrow> page" where
  "blank_page c = \<lparr>pcls = c, message = None, embed = None, children = [], parent = None,
     child_instances = (\<lambda>t. None), ending_task = None, finished = False\<rparr>"

definition new_object :: "pclass \<Rightarrow> world \<Rightarrow> ref \<times> world" where
  "new_object c w =
     (next_ref w,
      w\<lparr>pages := (pages w)(next_ref w := blank_page c), next_ref := Suc (next_ref w)\<rparr>)"

definition ChildPage_init :: "ref \<Rightarrow> nat option \<Rightarrow> nat option \<Rightarrow> ref \<Rightarrow> world \<Rightarrow> world" where
  "ChildPage_init self msg emb par w =
     EditorPage_init self msg emb (set_page self (\<lambda>p. p\<lparr>parent := Some par\<rparr>) w)"

definition ParentPage_init :: "ref \<Rightarrow> nat option \<Rightarrow> nat option \<Rightarrow> world \<Rightarrow> world" where
  "ParentPage_init self msg emb w =
     EditorPage_init self msg emb (set_page self (\<lambda>p. p\<lparr>child_instances := (\<lambda>t. None)\<rparr>) w)"

text \<open>
  \<^verbatim>\<open>MenuPage.__init__\<close> (menu.py): the parent's initialisation first, the selection
  component added afterwards.
\<close>

definition MenuPage_init :: "ref \<Rightarrow> nat option \<Rightarrow> nat option \<Rightarrow> world \<Rightarrow> world" where
  "MenuPage_init self msg emb w =
     add_item self \<lparr>disabled = False, callback = Bound self (plain_fn MenuSelectCallback)\<rparr>
       (ParentPage_init self msg emb w)"

text \<open>\<^verbatim>\<open>ClosableEditor.__init__\<close> (closable.py)\<close>

definition ClosableEditor_init :: "ref \<Rightarrow> nat option \<Rightarrow> nat option \<Rightarrow> world \<Rightarrow> world" where
  "ClosableEditor_init self msg emb w =
     EditorPage_init self msg emb (set_page self (\<lambda>p. p\<lparr>ending_task := None\<rparr>) w)"

definition takes_parent :: "kind \<Rightarrow> bool" where
  "takes_parent k = (k = Child \<or> k = Submenu)"

definition instantiate :: "pclass \<Rightarrow> nat option \<Rightarrow> nat option \<Rightarrow> ref option \<Rightarrow> world
    \<Rightarrow> (exn + ref) \<times> world" where
  "instantiate c msg emb parent_arg w =
     (case parent_arg of
        None \<Rightarrow>
          (if takes_parent (kind c) then (Inl TypeError, w)
           else (case new_object c w of
                   (self, w1) \<Rightarrow>
                     (Inr self,
                      (case kind c of
                         Parent \<Rightarrow> ParentPage_init self msg emb w1
                       | Menu \<Rightarrow> MenuPage_init self msg emb w1
                       | Closable \<Rightarrow> ClosableEditor_init self msg emb w1
                       | _ \<Rightarrow> EditorPage_init self msg emb w1))))
      | Some par \<Rightarrow>
          (if \<not> takes_parent (kind c) then (Inl TypeError, w)
           else (case new_object c w of
                   (self, w1) \<Rightarrow> (Inr self, ChildPage_init self msg emb par w1))))"

datatype switch_target = Instance ref | Type pclass

text \<open>\<^verbatim>\<open>SwitchablePage.switch\<close>\<close>

definition switch :: "ref \<Rightarrow> switch_target \<Rightarrow> world \<Rightarrow> (exn + ref) \<times> world" where
  "switch self new_editor w =
     (case (case new_editor of
              Type c \<Rightarrow> instantiate c (message (pages w self)) (embed (pages w self)) None w
            | Instance r \<Rightarrow> (Inr r, w)) of
        (Inl e, w1) \<Rightarrow> (Inl e, w1)
      | (Inr editor_object, w1) \<Rightarrow>
          (Inr editor_object, update_message editor_object (update editor_object w1)))"

text \<open>\<^verbatim>\<open>ChildPage.switch_to_parent\<close>\<close>

definition switch_to_parent :: "ref \<Rightarrow> world \<Rightarrow> result \<times> world" where
  "switch_to_parent self w =
     (case parent (pages w self) of
        None \<Rightarrow> (Inl AttributeError, w)
      | Some par \<Rightarrow>
          (case switch self (Instance par) w of
             (Inl e, w1) \<Rightarrow> (Inl e, w1)
           | (Inr r, w1) \<Rightarrow> (Inr VNone, w1)))"

text \<open>\<^verbatim>\<open>ParentPage.get_child\<close>\<close>

definition get_child :: "ref \<Rightarrow> pclass \<Rightarrow> world \<Rightarrow> (exn + ref) \<times> world" where
  "get_child self child_type w =
     (if child_type \<notin> set (CHILDREN (pcls (pages w self))) then (Inl KeyError, w)
      else (case child_instances (pages w self) child_type of
              Some r \<Rightarrow> (Inr r, w)
            | None \<Rightarrow>
                instantiate child_type (message (pages w self)) (embed (pages w self))
                  (Some self) w))"

text \<open>\<^verbatim>\<open>ParentPage.switch_to_child\<close>\<close>

definition switch_to_child :: "ref \<Rightarrow> pclass \<Rightarrow> world \<Rightarrow> (exn + ref) \<times> world" where
  "switch_to_child self child_type w =
     (case get_child self child_type w of
        (Inl e, w1) \<Rightarrow> (Inl e, w1)
      | (Inr child_object, w1) \<Rightarrow>
          (case switch self (Instance child_object) w1 of
             (Inl e, w2) \<Rightarrow> (Inl e, w2)
           | (Inr r, w2) \<Rightarrow> (Inr child_object, w2)))"

subsection \<open>closable.py: ClosableEditor\<close>

text \<open>
  \<^verbatim>\<open>on_close\<close> and \<^verbatim>\<open>on_end\<close> have empty bodies. \<open>OnEndStarted\<close> records that a
  coroutine \<^verbatim>\<open>self.on_end()\<close> was created and handed over to run (to the event loop
  by \<^verbatim>\<open>asyncio.create_task\<close>, or to an \<^verbatim>\<open>await\<close>), \<open>OnEndDone\<close> that it has
  returned.
\<close>

definition on_close :: "ref \<Rightarrow> world \<Rightarrow> world" where
  "on_close self w = emit [OnClose self] w"

definition create_task_on_end :: "ref \<Rightarrow> world \<Rightarrow> tref \<times> world" where
  "create_task_on_end self w =
     (next_tref w,
      emit [OnEndStarted self]
        (w\<lparr>tasks := (tasks w)(next_tref w := \<lparr>on_end_of = self, completed = False\<rparr>),
           next_tref := Suc (next_tref w)\<rparr>))"

text \<open>The event loop runs a task that was created and has not yet completed.\<close>

definition run_task :: "tref \<Rightarrow> world \<Rightarrow> world" where
  "run_task t w =
     (if t < next_tref w \<and> \<not> completed (tasks w t)
      then emit [OnEndDone (on_end_of (tasks w t))]
             (w\<lparr>tasks := (tasks w)(t := (tasks w t)\<lparr>completed := True\<rparr>)\<rparr>)
      else w)"

text \<open>\<^verbatim>\<open>ClosableEditor.stop\<close>\<close>

definition stop :: "ref \<Rightarrow> world \<Rightarrow> world" where
  "stop self w =
     (case create_task_on_end self w of
        (t, w1) \<Rightarrow> View_stop self (set_page self (\<lambda>p. p\<lparr>ending_task := Some t\<rparr>) w1))"

text \<open>
  \<^verbatim>\<open>ClosableEditor.on_timeout\<close>: \<^verbatim>\<open>await self.on_end()\<close>, then the base class's
  \<^verbatim>\<open>on_timeout\<close>, which does nothing.
\<close>

definition on_timeout :: "ref \<Rightarrow> world \<Rightarrow> world" where
  "on_timeout self w = emit [OnEndStarted self, OnEndDone self] w"

text \<open>
  The host's timeout of a view: a view that has ended (stopped or timed out) is not
  timed out; otherwise the view is marked as ended and its \<^verbatim>\<open>on_timeout\<close> runs.
\<close>

definition View_dispatch_timeout :: "ref \<Rightarrow> world \<Rightarrow> world" where
  "View_dispatch_timeout self w =
     (if finished (pages w self) then w
      else on_timeout self (set_page self (\<lambda>p. p\<lparr>finished := True\<rparr>) w))"

text \<open>\<^verbatim>\<open>__init_subclass__\<close>: the class keyword or the default text.\<close>

definition close_timeout_message :: "pclass \<Rightarrow> string" where
  "close_timeout_message c =
     (case close_timeout_message_arg c of
        None \<Rightarrow> '':sleeping: Modal timed out''
      | Some m \<Rightarrow> m)"

text \<open>
  \<^verbatim>\<open>ClosableEditor._close_interaction\<close>. \<open>timed_out\<close> is what \<^verbatim>\<open>modal.wait()\<close>
  returns: true when the dialog elapsed, false when it was submitted.
\<close>

definition close_interaction :: "ref \<Rightarrow> bool \<Rightarrow> world \<Rightarrow> result \<times> world" where
  "close_interaction self timed_out w =
     (let w1 = emit [SendModal] w
      in if timed_out
         then (Inr (VBool True),
               emit [FollowupSend (close_timeout_message (pcls (pages w1 self)))] w1)
         else (Inr VNone, stop self (on_close self w1)))"

text \<open>
  \<^verbatim>\<open>ClosableEditor.__await__\<close>. Awaiting a task returns its result when the task is
  done and suspends the caller on the task otherwise; the generator of
  \<^verbatim>\<open>_never_generator\<close> yields nothing, so awaiting it returns \<open>None\<close> at once.
\<close>

datatype await_outcome = Returned pyval | Suspended tref

definition Task_await :: "tref \<Rightarrow> world \<Rightarrow> await_outcome" where
  "Task_await t w = (if completed (tasks w t) then Returned VNone else Suspended t)"

definition never_generator :: await_outcome where
  "never_generator = Returned VNone"

definition await_editor :: "ref \<Rightarrow> world \<Rightarrow> await_outcome" where
  "await_editor self w =
     (case ending_task (pages w self) of
        Some t \<Rightarrow> Task_await t w
      | None \<Rightarrow> never_generator)"

subsection \<open>menu.py: \_MenuSelect\<close>

text \<open>
  \<^verbatim>\<open>int(s)\<close>, a character being a code point below 256: surrounding whitespace (the
  code points that Python counts as whitespace), an optional sign, then decimal digits,
  where single underscores may stand between digits. Below 256 the only decimal digits
  are \<open>0\<close> to \<open>9\<close>. A string with more than 4300 digits is refused, as one that is not
  a number is: by a \<^verbatim>\<open>ValueError\<close>, here \<open>None\<close>.
\<close>

definition is_space :: "char \<Rightarrow> bool" where
  "is_space c =
     (c \<in> set [CHR 0x20, CHR 0x09, CHR 0x0A, CHR 0x0B, CHR 0x0C, CHR 0x0D,
               CHR 0x1C, CHR 0x1D, CHR 0x1E, CHR 0x1F, CHR 0x85, CHR 0xA0])"

definition strip :: "string \<Rightarrow> string" where
  "strip s = rev (dropWhile is_space (rev (dropWhile is_space s)))"

definition digit_of :: "char \<Rightarrow> nat option" where
  "digit_of c =
     (let n = (of_char c :: nat) in if 48 \<le> n \<and> n \<le> 57 then Some (n - 48) else None)"

text \<open>The flag tells whether the previous character was a digit.\<close>

fun digits :: "bool \<Rightarrow> nat \<Rightarrow> string \<Rightarrow> nat option" where
  "digits prev acc [] = (if prev then Some acc else None)"
| "digits prev acc (c # cs) =
     (if c = CHR ''_'' then (if prev then digits False acc cs else None)
      else (case digit_of c of
              None \<Rightarrow> None
            | Some d \<Rightarrow> digits True (10 * acc + d) cs))"

definition max_str_digits :: nat where
  "max_str_digits = 4300"

definition py_int :: "string \<Rightarrow> int option" where
  "py_int s =
     (case strip s of
        [] \<Rightarrow> None
      | c # cs \<Rightarrow>
          (if max_str_digits < length (filter (\<lambda>x. digit_of x \<noteq> None) (c # cs)) then None
           else if c = CHR ''-'' then map_option (\<lambda>n. - int n) (digits False 0 cs)
           else if c = CHR ''+'' then map_option int (digits False 0 cs)
           else map_option int (digits False 0 (c # cs))))"

text \<open>\<^verbatim>\<open>next(filter(pred, xs))\<close>: the first match, or \<^verbatim>\<open>StopIteration\<close>.\<close>

definition next_filter :: "('a \<Rightarrow> bool) \<Rightarrow> 'a list \<Rightarrow> exn + 'a" where
  "next_filter pred xs =
     (case List.find pred xs of None \<Rightarrow> Inl StopIteration | Some x \<Rightarrow> Inr x)"

text \<open>
  The body of \<^verbatim>\<open>_MenuSelect.callback\<close>; \<open>vals\<close> is \<^verbatim>\<open>self.values\<close>, as the host
  delivered it. Each \<^verbatim>\<open>try\<close> catches the one exception class its \<^verbatim>\<open>except\<close> names.
\<close>

definition MenuSelect_callback_body :: "ref \<Rightarrow> string list \<Rightarrow> world \<Rightarrow> result \<times> world" where
  "MenuSelect_callback_body editor_ref vals w =
     (case vals of
        [] \<Rightarrow> (Inl IndexError, w)
      | v # rest \<Rightarrow>
          (case py_int v of
             None \<Rightarrow>
               (Inr VNone,
                emit [LogError ''_MenuSelect value could not be interpreted as integer'',
                      SendMessage ''Selected Value is not possible...?''] w)
           | Some child_id \<Rightarrow>
               (case next_filter (\<lambda>c. cid c = child_id) (CHILDREN (pcls (pages w editor_ref))) of
                  Inl KeyError \<Rightarrow>
                    (Inr VNone,
                     emit [LogError ''Could not find child for _MenuSelect value %d'',
                           SendMessage ''Could not interpret selected value...''] w)
                | Inl e \<Rightarrow> (Inl e, w)
                | Inr child \<Rightarrow>
                    (case switch_to_child editor_ref child (emit [Defer] w) of
                       (Inl e, w1) \<Rightarrow> (Inl e, w1)
                     | (Inr r, w1) \<Rightarrow> (Inr VNone, w1)))))"

text \<open>
  A \<^verbatim>\<open>StopIteration\<close> that leaves the body of a coroutine reaches the caller as a
  \<^verbatim>\<open>RuntimeError\<close>.
\<close>

definition coroutine :: "result \<times> world \<Rightarrow> result \<times> world" where
  "coroutine rw = (case rw of (Inl StopIteration, w) \<Rightarrow> (Inl RuntimeError, w) | _ \<Rightarrow> rw)"

definition MenuSelect_callback :: "ref \<Rightarrow> string list \<Rightarrow> world \<Rightarrow> result \<times> world" where
  "MenuSelect_callback editor_ref vals w = coroutine (MenuSelect_callback_body editor_ref vals w)"

text \<open>
  What the host supplies to an interaction: the outcome of the confirmation dialog and
  the values of the selection. The library functions run for the view they are bound
  to; the other functions are those of the concrete classes (\<open>others\<close>).
\<close>

record host =
  modal_timed_out :: bool
  select_values :: "string list"

definition library_body :: "host \<Rightarrow> (ref \<Rightarrow> fn \<Rightarrow> world \<Rightarrow> result \<times> world) \<Rightarrow> ref \<Rightarrow> fn \<Rightarrow> world
    \<Rightarrow> result \<times> world" where
  "library_body h others v f w =
     (case f of
        CloseInteraction \<Rightarrow> close_interaction v (modal_timed_out h) w
      | MenuSelectCallback \<Rightarrow> MenuSelect_callback v (select_values h) w
      | _ \<Rightarrow> others v f w)"

subsection \<open>A sample world\<close>

definition empty_world :: world where
  "empty_world =
     \<lparr>pages = (\<lambda>r. blank_page (PClass 0 Editor [] [] False None)), next_ref = 0,
      items = (\<lambda>i. \<lparr>disabled = False, callback = Bound 0 (plain_fn (UserFn 0))\<rparr>),
      next_iref = 0,
      tasks = (\<lambda>t. \<lparr>on_end_of = 0, completed = False\<rparr>), next_tref = 0,
      guards = (\<lambda>g. \<lparr>disabled_items = [], editor = None\<rparr>), next_gref = 0,
      trace = []\<rparr>"

definition sample_child :: pclass where
  "sample_child = PClass 7 Submenu [] [] False None"

definition other_child :: pclass where
  "other_child = PClass 9 Submenu [] [] False None"

definition sample_menu :: pclass where
  "sample_menu =
     PClass 5 Menu [plain_fn (UserFn 0), disable_update True False (plain_fn (UserFn 1))]
       [sample_child] False None"

definition sample_closable :: pclass where
  "sample_closable = PClass 3 Closable [plain_fn (UserFn 0)] [] False None"

text \<open>A menu page, object 0, bound to message 100.\<close>

definition menu_world :: world where
  "menu_world = snd (instantiate sample_menu (Some 100) None None empty_world)"

text \<open>A closable page, object 0, with the close button and one button of its own.\<close>

definition closable_world :: world where
  "closable_world = snd (instantiate sample_closable (Some 100) None None empty_world)"


definition two_pages_world :: world where
  "two_pages_world =
     snd (disable_when_processing_init True
            (snd (instantiate sample_closable (Some 101) None None closable_world)))"



text \<open>A guarded function that reports how many components guard 0 remembers.\<close>

definition probe_func :: "world \<Rightarrow> result \<times> world" where
  "probe_func w = (Inr (VOther (length (disabled_items (guards w 0)))), w)"

definition ok_body :: "ref \<Rightarrow> fn \<Rightarrow> world \<Rightarrow> result \<times> world" where
  "ok_body v f w = (Inr VNone, w)"

definition failing_body :: "ref \<Rightarrow> fn \<Rightarrow> world \<Rightarrow> result \<times> world" where
  "failing_body v f w = (Inl (OtherError 0), w)"

subsection \<open>How a closable page is ended\<close>

text \<open>
  The three ways in which the code reaches \<^verbatim>\<open>on_end\<close>: the close button with the
  dialog submitted, a call of \<^verbatim>\<open>stop\<close>, and the host's timeout of the page, which
  runs \<^verbatim>\<open>on_timeout\<close> unless the page has ended. \<open>on_end_starts\<close> counts how often
  \<^verbatim>\<open>on_end\<close> of a page was started.
\<close>

datatype end_event = CloseConfirmed | StopCall | HostTimeout

definition end_step :: "ref \<Rightarrow> end_event \<Rightarrow> world \<Rightarrow> world" where
  "end_step self ev w =
     (case ev of
        CloseConfirmed \<Rightarrow> snd (close_interaction self False w)
      | StopCall \<Rightarrow> stop self w
      | HostTimeout \<Rightarrow> View_dispatch_timeout self w)"

definition on_end_starts :: "ref \<Rightarrow> world \<Rightarrow> nat" where
  "on_end_starts self w = count_list (trace w) (OnEndStarted self)"

section \<open>Construction: what a new page changes\<close>

lemma fold_set_item_frame:
  "pages (fold (\<lambda>i. set_item i g) xs w) = pages w"
  "next_ref (fold (\<lambda>i. set_item i g) xs w) = next_ref w"
  "next_iref (fold (\<lambda>i. set_item i g) xs w) = next_iref w"
  "tasks (fold (\<lambda>i. set_item i g) xs w) = tasks w"
  "next_tref (fold (\<lambda>i. set_item i g) xs w) = next_tref w"
  "guards (fold (\<lambda>i. set_item i g) xs w) = guards w"
  "next_gref (fold (\<lambda>i. set_item i g) xs w) = next_gref w"
  "trace (fold (\<lambda>i. set_item i g) xs w) = trace w"
  by (induction xs arbitrary: w) (simp_all add: set_item_def)

lemma fold_set_item_other:
  "j \<notin> set xs \<Longrightarrow> items (fold (\<lambda>i. set_item i g) xs w) j = items w j"
  by (induction xs arbitrary: w) (simp_all add: set_item_def)

lemma fold_set_item_distinct:
  "distinct xs \<Longrightarrow> j \<in> set xs \<Longrightarrow> items (fold (\<lambda>i. set_item i g) xs w) j = g (items w j)"
  by (induction xs arbitrary: w) (auto simp: set_item_def fold_set_item_other)

lemma init_children_frame:
  "next_ref (init_children self ds w) = next_ref w"
  "tasks (init_children self ds w) = tasks w"
  "next_tref (init_children self ds w) = next_tref w"
  "guards (init_children self ds w) = guards w"
  "next_gref (init_children self ds w) = next_gref w"
  "trace (init_children self ds w) = trace w"
  "next_iref (init_children self ds w) = next_iref w + length ds"
  by (induction ds arbitrary: w) simp_all

lemma upt_fresh: "[n ..< Suc (n + m)] = n # [Suc n ..< Suc (n + m)]"
  by (rule upt_conv_Cons) simp

lemma init_children_pages:
  "pages (init_children self ds w) =
     (pages w)(self := (pages w self)
        \<lparr>children := children (pages w self) @ [next_iref w ..< next_iref w + length ds]\<rparr>)"
proof (induction ds arbitrary: w)
  case Nil
  then show ?case by simp
next
  case (Cons d ds)
  show ?case by (simp add: Cons.IH upt_fresh fun_eq_iff del: upt_Suc)
qed

lemma init_children_items_old:
  "j < next_iref w \<Longrightarrow> items (init_children self ds w) j = items w j"
  by (induction ds arbitrary: w) simp_all

lemma init_children_items_new:
  "k < length ds \<Longrightarrow>
     items (init_children self ds w) (next_iref w + k) =
       \<lparr>disabled = False, callback = Bound self (ds ! k)\<rparr>"
proof (induction ds arbitrary: w k)
  case Nil
  then show ?case by simp
next
  case (Cons d ds)
  show ?case
  proof (cases k)
    case 0
    then show ?thesis by (simp add: init_children_items_old)
  next
    case (Suc k')
    with Cons.prems have "k' < length ds" by simp
    from Cons.IH [OF this, of "w\<lparr>items := (items w)(next_iref w := \<lparr>disabled = False, callback = Bound self d\<rparr>),
          next_iref := Suc (next_iref w),
          pages := (pages w)(self := (pages w self)
                      \<lparr>children := children (pages w self) @ [next_iref w]\<rparr>)\<rparr>"]
    show ?thesis using Suc by simp
  qed
qed


lemma View_init_frame:
  "next_ref (View_init self w) = next_ref w"
  "tasks (View_init self w) = tasks w"
  "next_tref (View_init self w) = next_tref w"
  "guards (View_init self w) = guards w"
  "next_gref (View_init self w) = next_gref w"
  "trace (View_init self w) = trace w"
  by (simp_all add: View_init_def init_children_frame set_page_def)

lemma View_init_pages:
  "pages (View_init self w) =
     (pages w)(self := (pages w self)
        \<lparr>children := [next_iref w ..< next_iref w + length (class_components (pcls (pages w self)))],
         finished := False\<rparr>)"
  by (simp add: View_init_def init_children_pages set_page_def fun_eq_iff)

lemma EditorPage_init_frame:
  "next_ref (EditorPage_init self msg emb w) = next_ref w"
  "tasks (EditorPage_init self msg emb w) = tasks w"
  "next_tref (EditorPage_init self msg emb w) = next_tref w"
  "guards (EditorPage_init self msg emb w) = guards w"
  "next_gref (EditorPage_init self msg emb w) = next_gref w"
  "trace (EditorPage_init self msg emb w) = trace w"
  by (simp_all add: EditorPage_init_def Let_def fold_set_item_frame View_init_frame set_page_def)

lemma EditorPage_init_pages:
  "pages (EditorPage_init self msg emb w) =
     (pages w)(self := (pages w self)
        \<lparr>message := msg, embed := emb,
         children := [next_iref w ..< next_iref w + length (class_components (pcls (pages w self)))],
         finished := False\<rparr>)"
  by (simp add: EditorPage_init_def Let_def fold_set_item_frame View_init_pages set_page_def
        fun_eq_iff)

lemma instantiate_ref:
  "takes_parent (kind c) = (parent_arg \<noteq> None) \<Longrightarrow>
     fst (instantiate c msg emb parent_arg w) = Inr (next_ref w)"
  by (cases parent_arg) (simp_all add: instantiate_def new_object_def)

lemma instantiate_next_ref:
  "takes_parent (kind c) = (parent_arg \<noteq> None) \<Longrightarrow>
     next_ref (snd (instantiate c msg emb parent_arg w)) = Suc (next_ref w)"
  by (cases parent_arg; cases "kind c")
     (simp_all add: instantiate_def new_object_def takes_parent_def ChildPage_init_def
        ParentPage_init_def MenuPage_init_def ClosableEditor_init_def add_item_def
        EditorPage_init_frame set_page_def)

lemma instantiate_pages_old:
  "r \<noteq> next_ref w \<Longrightarrow> pages (snd (instantiate c msg emb parent_arg w)) r = pages w r"
  by (cases parent_arg; cases "kind c")
     (simp_all add: instantiate_def new_object_def takes_parent_def ChildPage_init_def
        ParentPage_init_def MenuPage_init_def ClosableEditor_init_def add_item_def
        EditorPage_init_frame EditorPage_init_pages set_page_def)

lemma instantiate_guards:
  "guards (snd (instantiate c msg emb parent_arg w)) = guards w"
  "next_gref (snd (instantiate c msg emb parent_arg w)) = next_gref w"
  by (cases parent_arg; cases "kind c";
      simp add: instantiate_def new_object_def takes_parent_def ChildPage_init_def
        ParentPage_init_def MenuPage_init_def ClosableEditor_init_def add_item_def
        EditorPage_init_frame set_page_def)+

lemma instantiate_new_page:
  "takes_parent (kind c) = (parent_arg \<noteq> None) \<Longrightarrow>
     pcls (pages (snd (instantiate c msg emb parent_arg w)) (next_ref w)) = c \<and>
     finished (pages (snd (instantiate c msg emb parent_arg w)) (next_ref w)) = False \<and>
     parent (pages (snd (instantiate c msg emb parent_arg w)) (next_ref w)) = parent_arg"
  by (cases parent_arg; cases "kind c")
     (simp_all add: instantiate_def new_object_def takes_parent_def ChildPage_init_def
        ParentPage_init_def MenuPage_init_def ClosableEditor_init_def add_item_def
        EditorPage_init_frame EditorPage_init_pages set_page_def blank_page_def)

lemma View_init_next_iref:
  "next_iref (View_init self w) = next_iref w + length (class_components (pcls (pages w self)))"
  by (simp add: View_init_def init_children_frame set_page_def)

lemma View_init_items_old:
  "j < next_iref w \<Longrightarrow> items (View_init self w) j = items w j"
  by (simp add: View_init_def init_children_items_old set_page_def)

lemma View_init_items_new:
  "k < length (class_components (pcls (pages w self))) \<Longrightarrow>
     items (View_init self w) (next_iref w + k) =
       \<lparr>disabled = False, callback = Bound self (class_components (pcls (pages w self)) ! k)\<rparr>"
  using init_children_items_new
    [of k "class_components (pcls (pages w self))" self
        "set_page self (\<lambda>p. p\<lparr>children := [], finished := False\<rparr>) w"]
  by (simp add: View_init_def set_page_def)

lemma EditorPage_init_next_iref:
  "next_iref (EditorPage_init self msg emb w) =
     next_iref w + length (class_components (pcls (pages w self)))"
  by (simp add: EditorPage_init_def Let_def fold_set_item_frame View_init_next_iref set_page_def)

lemma EditorPage_init_items_old:
  "j < next_iref w \<Longrightarrow> items (EditorPage_init self msg emb w) j = items w j"
  by (simp add: EditorPage_init_def Let_def View_init_pages View_init_items_old
        fold_set_item_other set_page_def)

lemma EditorPage_init_items_new:
  assumes "k < length (class_components (pcls (pages w self)))"
  shows "items (EditorPage_init self msg emb w) (next_iref w + k) =
       \<lparr>disabled = False,
        callback = Wrapper self (Bound self (class_components (pcls (pages w self)) ! k))\<rparr>"
proof -
  let ?w1 = "set_page self (\<lambda>p. p\<lparr>message := msg, embed := emb\<rparr>) w"
  let ?w2 = "View_init self ?w1"
  let ?cs = "class_components (pcls (pages w self))"
  have cls: "pcls (pages ?w1 self) = pcls (pages w self)" and ni: "next_iref ?w1 = next_iref w"
    by (simp_all add: set_page_def)
  have ch: "children (pages ?w2 self) = [next_iref w ..< next_iref w + length ?cs]"
    by (simp add: View_init_pages set_page_def)
  have it: "items ?w2 (next_iref w + k) = \<lparr>disabled = False, callback = Bound self (?cs ! k)\<rparr>"
    using View_init_items_new [of k ?w1 self] assms cls ni by simp
  have "items (fold (\<lambda>i. set_item i (\<lambda>it. it\<lparr>callback := wraps_update self (callback it)\<rparr>))
            (children (pages ?w2 self)) ?w2) (next_iref w + k) =
        (items ?w2 (next_iref w + k))
          \<lparr>callback := wraps_update self (callback (items ?w2 (next_iref w + k)))\<rparr>"
    using assms by (intro fold_set_item_distinct) (simp_all add: ch)
  then show ?thesis
    by (simp add: EditorPage_init_def Let_def it wraps_update_def)
qed


lemma EditorPage_init_items_at:
  "next_iref w = n \<Longrightarrow> k < length (class_components (pcls (pages w self))) \<Longrightarrow>
     items (EditorPage_init self msg emb w) (n + k) =
       \<lparr>disabled = False,
        callback = Wrapper self (Bound self (class_components (pcls (pages w self)) ! k))\<rparr>"
  using EditorPage_init_items_new [of k w self msg emb] by simp

lemmas init_defs = instantiate_def new_object_def takes_parent_def ChildPage_init_def
  ParentPage_init_def MenuPage_init_def ClosableEditor_init_def add_item_def set_page_def
  blank_page_def

lemma instantiate_items_old:
  "j < next_iref w \<Longrightarrow> items (snd (instantiate c msg emb parent_arg w)) j = items w j"
  by (cases parent_arg; cases "kind c")
     (simp_all add: init_defs EditorPage_init_items_old EditorPage_init_next_iref)

lemma instantiate_items_new:
  assumes "takes_parent (kind c) = (parent_arg \<noteq> None)"
    and "k < length (class_components c)"
  shows "items (snd (instantiate c msg emb parent_arg w)) (next_iref w + k) =
       \<lparr>disabled = False,
        callback = Wrapper (next_ref w) (Bound (next_ref w) (class_components c ! k))\<rparr>"
  using assms
  by (cases parent_arg; cases "kind c")
     (simp_all add: init_defs EditorPage_init_items_at EditorPage_init_next_iref)

lemma instantiate_children:
  assumes "takes_parent (kind c) = (parent_arg \<noteq> None)"
  shows "children (pages (snd (instantiate c msg emb parent_arg w)) (next_ref w)) =
       [next_iref w ..< next_iref w + length (class_components c)] @
       (if kind c = Menu then [next_iref w + length (class_components c)] else [])"
  using assms
  by (cases parent_arg; cases "kind c")
     (simp_all add: init_defs EditorPage_init_pages EditorPage_init_next_iref
        EditorPage_init_frame)

lemma instantiate_menu_select:
  assumes "kind c = Menu"
  shows "items (snd (instantiate c msg emb None w)) (next_iref w + length (class_components c)) =
       \<lparr>disabled = False, callback = Bound (next_ref w) (plain_fn MenuSelectCallback)\<rparr>"
  using assms
  by (simp add: init_defs EditorPage_init_pages EditorPage_init_next_iref
        EditorPage_init_frame)

lemma instantiate_fields:
  assumes "takes_parent (kind c) = (parent_arg \<noteq> None)"
  shows "ending_task (pages (snd (instantiate c msg emb parent_arg w)) (next_ref w)) = None"
    and "child_instances (pages (snd (instantiate c msg emb parent_arg w)) (next_ref w)) = (\<lambda>t. None)"
    and "message (pages (snd (instantiate c msg emb parent_arg w)) (next_ref w)) = msg"
    and "embed (pages (snd (instantiate c msg emb parent_arg w)) (next_ref w)) = emb"
  using assms
  by (cases parent_arg; cases "kind c";
      simp add: init_defs EditorPage_init_pages EditorPage_init_frame)+

lemma instantiate_frame:
  "tasks (snd (instantiate c msg emb parent_arg w)) = tasks w"
  "next_tref (snd (instantiate c msg emb parent_arg w)) = next_tref w"
  "trace (snd (instantiate c msg emb parent_arg w)) = trace w"
  by (cases parent_arg; cases "kind c";
      simp add: init_defs EditorPage_init_frame)+

lemma menu_world_facts:
  "next_ref menu_world = 1"
  "pcls (pages menu_world 0) = sample_menu"
  "finished (pages menu_world 0) = False"
  "child_instances (pages menu_world 0) = (\<lambda>t. None)"
  "message (pages menu_world 0) = Some 100"
  "embed (pages menu_world 0) = None"
  by (simp_all add: menu_world_def instantiate_def sample_menu_def takes_parent_def
        new_object_def MenuPage_init_def ParentPage_init_def add_item_def set_page_def
        EditorPage_init_frame EditorPage_init_pages empty_world_def blank_page_def)

lemma update_frame:
  "pages (update r w) = pages w" "next_ref (update r w) = next_ref w"
  "pages (update_message r w) = pages w" "next_ref (update_message r w) = next_ref w"
  by (simp_all add: update_def update_message_def emit_def split: option.splits)

lemma closable_world_facts:
  "next_ref closable_world = 1"
  "next_tref closable_world = 0"
  "trace closable_world = []"
  "pcls (pages closable_world 0) = sample_closable"
  "finished (pages closable_world 0) = False"
  "ending_task (pages closable_world 0) = None"
  "message (pages closable_world 0) = Some 100"
  "embed (pages closable_world 0) = None"
  "children (pages closable_world 0) = [0, 1]"
  "items closable_world 0 = \<lparr>disabled = False, callback = Wrapper 0 (Bound 0 close_button)\<rparr>"
  "items closable_world (Suc 0) =
     \<lparr>disabled = False, callback = Wrapper 0 (Bound 0 (plain_fn (UserFn 0)))\<rparr>"
proof -
  have ok: "takes_parent (kind sample_closable) = ((None :: ref option) \<noteq> None)"
    by (simp add: sample_closable_def takes_parent_def)
  have knd: "kind sample_closable = Closable"
    by (simp add: sample_closable_def)
  have cc: "class_components sample_closable = [close_button, plain_fn (UserFn 0)]"
    by (simp add: class_components_def library_components_def sample_closable_def)
  show "next_ref closable_world = 1"
    using instantiate_next_ref [OF ok] by (simp add: closable_world_def empty_world_def)
  show "next_tref closable_world = 0" "trace closable_world = []"
    by (simp_all add: closable_world_def instantiate_frame empty_world_def)
  show "pcls (pages closable_world 0) = sample_closable"
    "finished (pages closable_world 0) = False"
    using instantiate_new_page [OF ok, of "Some 100" None empty_world]
    by (simp_all add: closable_world_def empty_world_def)
  show "ending_task (pages closable_world 0) = None"
    using instantiate_fields(1) [OF ok, of "Some 100" None empty_world]
    by (simp add: closable_world_def empty_world_def)
  show "message (pages closable_world 0) = Some 100"
    using instantiate_fields(3) [OF ok, of "Some 100" None empty_world]
    by (simp add: closable_world_def empty_world_def)
  show "embed (pages closable_world 0) = None"
    using instantiate_fields(4) [OF ok, of "Some 100" None empty_world]
    by (simp add: closable_world_def empty_world_def)
  show "children (pages closable_world 0) = [0, 1]"
    using instantiate_children [OF ok, of "Some 100" None empty_world]
    by (simp add: closable_world_def empty_world_def cc knd)
  show "items closable_world 0 = \<lparr>disabled = False, callback = Wrapper 0 (Bound 0 close_button)\<rparr>"
    using instantiate_items_new [OF ok, of 0 "Some 100" None empty_world]
    by (simp add: closable_world_def empty_world_def cc)
  show "items closable_world (Suc 0) =
      \<lparr>disabled = False, callback = Wrapper 0 (Bound 0 (plain_fn (UserFn 0)))\<rparr>"
    using instantiate_items_new [OF ok, of 1 "Some 100" None empty_world]
    by (simp add: closable_world_def empty_world_def cc)
qed

section \<open>Switching (hierarchy.py)\<close>

text \<open>
  Claim C1 says that \<open>switch\<close> returns the target only once the target has ended.
  The code renders the target and returns: for a target instance the result is that
  instance and its \<open>finished\<close> flag is what it was before the call, so a target that
  has not ended is returned while it has not ended; for a page type the result is the
  page just constructed, which has not ended.
\<close>

theorem switch_returns_at_once:
  "fst (switch self (Instance r) w) = Inr r \<and>
   finished (pages (snd (switch self (Instance r) w)) r) = finished (pages w r) \<and>
   (\<not> takes_parent (kind c) \<longrightarrow>
      fst (switch self (Type c) w) = Inr (next_ref w) \<and>
      \<not> finished (pages (snd (switch self (Type c) w)) (next_ref w)))"
proof -
  have inst: "fst (switch self (Instance r) w) = Inr r \<and>
      finished (pages (snd (switch self (Instance r) w)) r) = finished (pages w r)"
    by (simp add: switch_def update_frame)
  have ty: "fst (switch self (Type c) w) = Inr (next_ref w) \<and>
      \<not> finished (pages (snd (switch self (Type c) w)) (next_ref w))"
    if "\<not> takes_parent (kind c)"
  proof -
    let ?i = "instantiate c (message (pages w self)) (embed (pages w self)) None w"
    from that have "fst ?i = Inr (next_ref w)" and "\<not> finished (pages (snd ?i) (next_ref w))"
      by (simp_all add: instantiate_ref instantiate_new_page)
    then show ?thesis
      by (cases ?i) (simp add: switch_def update_frame)
  qed
  from inst ty show ?thesis by blast
qed

text \<open>
  C1 at the menu page of \<open>menu_world\<close>, which is open: switching to it, and to a new
  closable page, returns a page that has not ended.
\<close>

theorem switch_returns_at_once_witness:
  "fst (switch 0 (Instance 0) menu_world) = Inr 0 \<and>
   \<not> finished (pages (snd (switch 0 (Instance 0) menu_world)) 0) \<and>
   fst (switch 0 (Type sample_closable) menu_world) = Inr 1 \<and>
   \<not> finished (pages (snd (switch 0 (Type sample_closable) menu_world)) 1)"
  using switch_returns_at_once [of 0 0 menu_world sample_closable]
  by (simp add: menu_world_facts sample_closable_def takes_parent_def)

section \<open>The children of a parent page (hierarchy.py)\<close>

text \<open>
  Claim C2 says that two calls of \<open>get_child\<close> for a declared type return the same
  object. The code constructs a child when the cache has none and never stores it:
  for a declared child type that is not yet cached, the first call returns a new
  object, the cache still has no entry afterwards, and the second call returns
  another new object.
\<close>

theorem get_child_never_caches:
  assumes declared: "child_type \<in> set (CHILDREN (pcls (pages w self)))"
    and ctor: "takes_parent (kind child_type)"
    and absent: "child_instances (pages w self) child_type = None"
    and allocated: "self < next_ref w"
  shows "fst (get_child self child_type w) = Inr (next_ref w) \<and>
         fst (get_child self child_type (snd (get_child self child_type w)))
           = Inr (Suc (next_ref w)) \<and>
         child_instances (pages (snd (get_child self child_type w)) self) child_type = None"
proof -
  let ?msg = "message (pages w self)" and ?emb = "embed (pages w self)"
  let ?w1 = "snd (instantiate child_type ?msg ?emb (Some self) w)"
  have first: "get_child self child_type w = instantiate child_type ?msg ?emb (Some self) w"
    using declared absent by (simp add: get_child_def)
  have same: "pages ?w1 self = pages w self"
    using allocated by (simp add: instantiate_pages_old)
  have second: "get_child self child_type ?w1 =
      instantiate child_type ?msg ?emb (Some self) ?w1"
    using declared absent by (simp add: get_child_def same)
  have r1: "fst (instantiate child_type ?msg ?emb (Some self) w) = Inr (next_ref w)"
    using ctor by (simp add: instantiate_ref)
  have r2: "fst (instantiate child_type ?msg ?emb (Some self) ?w1) = Inr (Suc (next_ref w))"
    using ctor by (simp add: instantiate_ref instantiate_next_ref)
  show ?thesis
    using first second r1 r2 same absent by simp
qed

text \<open>
  C2 at the menu page of \<open>menu_world\<close> and its declared child: the two calls return
  the objects 1 and 2.
\<close>

theorem get_child_never_caches_witness:
  "fst (get_child 0 sample_child menu_world) = Inr 1 \<and>
   fst (get_child 0 sample_child (snd (get_child 0 sample_child menu_world))) = Inr 2 \<and>
   child_instances (pages (snd (get_child 0 sample_child menu_world)) 0) sample_child = None"
  using get_child_never_caches [of sample_child menu_world 0]
  by (simp add: menu_world_facts sample_menu_def sample_child_def takes_parent_def)

text \<open>
  Claim C9: for a type that is not in the \<open>CHILDREN\<close> of the parent's class,
  \<open>get_child\<close> raises \<open>KeyError\<close> and leaves everything, the cache of child
  instances included, as it was.
\<close>

theorem get_child_undeclared:
  assumes "child_type \<notin> set (CHILDREN (pcls (pages w self)))"
  shows "get_child self child_type w = (Inl KeyError, w)"
  using assms by (simp add: get_child_def)

text \<open>C9 at the menu page of \<open>menu_world\<close> and a type it does not declare.\<close>

theorem get_child_undeclared_witness:
  "get_child 0 other_child menu_world = (Inl KeyError, menu_world)"
  using get_child_undeclared [of other_child menu_world 0]
  by (simp add: menu_world_facts sample_menu_def sample_child_def other_child_def)

section \<open>The selection of a menu (menu.py)\<close>

lemma py_int_42: "py_int ''42'' = Some 42"
  by code_simp

text \<open>
  A value that is not an integer: the error is logged, one message is sent to the
  user, the callback returns and nothing else changes.
\<close>

lemma MenuSelect_not_integer:
  assumes "py_int v = None"
  shows "MenuSelect_callback ed (v # rest) w =
     (Inr VNone,
      emit [LogError ''_MenuSelect value could not be interpreted as integer'',
            SendMessage ''Selected Value is not possible...?''] w)"
  using assms by (simp add: MenuSelect_callback_def MenuSelect_callback_body_def coroutine_def)

text \<open>
  Claim C5 says that a value which maps to no declared child yields a message to the
  user and no exception. For an integer that is the identity of no declared child the
  search raises \<open>StopIteration\<close>, which the handler for \<open>KeyError\<close> does not catch:
  the callback raises, and no message is sent.
\<close>

theorem MenuSelect_unmatched_integer_propagates:
  assumes "py_int v = Some n"
    and "List.find (\<lambda>c. cid c = n) (CHILDREN (pcls (pages w ed))) = None"
  shows "MenuSelect_callback ed (v # rest) w = (Inl RuntimeError, w)"
  using assms
  by (simp add: MenuSelect_callback_def MenuSelect_callback_body_def coroutine_def
        next_filter_def)

text \<open>C5 at the menu of \<open>menu_world\<close>, whose only child has the identity 7, and the value 42.\<close>

theorem MenuSelect_unmatched_integer_propagates_witness:
  "MenuSelect_callback 0 [''42''] menu_world = (Inl RuntimeError, menu_world)"
  using MenuSelect_unmatched_integer_propagates [of "''42''" 42 menu_world 0 "[]"]
  by (simp add: py_int_42 menu_world_facts sample_menu_def sample_child_def)

section \<open>Ending a closable page (closable.py)\<close>

lemma stop_starts: "on_end_starts self (stop self w) = Suc (on_end_starts self w)"
  by (simp add: on_end_starts_def stop_def create_task_on_end_def View_stop_def set_page_def
        emit_def)

lemma on_timeout_starts: "on_end_starts self (on_timeout self w) = Suc (on_end_starts self w)"
  by (simp add: on_end_starts_def on_timeout_def emit_def)

lemma close_confirmed_starts:
  "on_end_starts self (snd (close_interaction self False w)) = Suc (on_end_starts self w)"
  by (simp add: close_interaction_def Let_def stop_starts)
     (simp add: on_end_starts_def on_close_def emit_def)

lemma dispatch_timeout_starts:
  "on_end_starts self (View_dispatch_timeout self w) =
     (if finished (pages w self) then on_end_starts self w else Suc (on_end_starts self w))"
  by (simp add: View_dispatch_timeout_def on_timeout_starts)
     (simp add: on_end_starts_def set_page_def)

lemma end_step_finished: "finished (pages (end_step self ev w) self)"
  by (cases ev)
     (simp_all add: end_step_def close_interaction_def Let_def stop_def create_task_on_end_def
        View_stop_def View_dispatch_timeout_def on_timeout_def on_close_def set_page_def
        emit_def)

lemma end_step_starts:
  "on_end_starts self (end_step self ev w) =
     (if ev = HostTimeout \<and> finished (pages w self) then on_end_starts self w
      else Suc (on_end_starts self w))"
  by (cases ev)
     (simp_all add: end_step_def stop_starts close_confirmed_starts dispatch_timeout_starts)

lemma fold_end_step_ended:
  "finished (pages w self) \<Longrightarrow>
     on_end_starts self (fold (end_step self) evs w) =
       on_end_starts self w + length (filter (\<lambda>ev. ev \<noteq> HostTimeout) evs)"
  by (induction evs arbitrary: w) (simp_all add: end_step_starts end_step_finished)

text \<open>
  Claim C3 says that \<open>on_end\<close> is started at most once, however often \<open>stop\<close> is
  called. Against it: on a new closable page two calls of \<open>stop\<close> start \<open>on_end\<close>
  twice.
\<close>

theorem on_end_restarted_counterexample:
  "\<not> on_end_starts 0 (stop 0 (stop 0 closable_world)) \<le> 1"
proof -
  have "on_end_starts 0 (stop 0 (stop 0 closable_world)) =
      Suc (Suc (on_end_starts 0 closable_world))"
    by (simp add: stop_starts)
  then show ?thesis by simp
qed

text \<open>
  Claim C3, amended: \<open>on_end\<close> is started once by every call of \<open>stop\<close>, the call
  that a confirmed close makes included, and once by the host's timeout, which reaches
  only a page that has not ended. After any sequence of confirmed closes, calls of
  \<open>stop\<close> and timeouts from the host, \<open>on_end\<close> has been started once for each
  element that is not a timeout, and once more if the sequence begins with the timeout
  of a page that had not ended. So it is started at most once when \<open>stop\<close> is called
  at most once and not after a timeout, and every further call of \<open>stop\<close> starts it
  again.
\<close>

theorem on_end_started_once_per_stop:
  "on_end_starts self (fold (end_step self) evs w) =
     on_end_starts self w + length (filter (\<lambda>ev. ev \<noteq> HostTimeout) evs) +
     (if take 1 evs = [HostTimeout] \<and> \<not> finished (pages w self) then 1 else 0)"
proof (cases evs)
  case Nil
  then show ?thesis by simp
next
  case (Cons ev rest)
  have "on_end_starts self (fold (end_step self) rest (end_step self ev w)) =
      on_end_starts self (end_step self ev w) +
        length (filter (\<lambda>ev. ev \<noteq> HostTimeout) rest)"
    by (rule fold_end_step_ended) (rule end_step_finished)
  then show ?thesis
    using Cons by (simp add: end_step_starts)
qed

text \<open>
  Claim C6 says that after the dialog has elapsed the close callback skips both refresh
  phases. The close callback is marked to skip them, but the marks are on the declared
  function and the wrapper looks for them on \<open>item.callback\<close>, where they are not:
  when the close button of a closable page is pressed and the dialog elapses, the
  wrapped callback sends the dialog and one timeout notice, and then \<open>update\<close> and
  \<open>update_message\<close> of the page run, once each. The rest is as the claim says: the
  callback calls neither \<open>on_close\<close> nor \<open>stop\<close>, and the pages (so the page is not
  finished and has no ending task), the components and the tasks are as they were.
\<close>

theorem close_timeout_runs_refresh:
  assumes "callback (items w i) = Wrapper self (Bound self close_button)"
    and "modal_timed_out h"
  shows "(case run_callback (library_body h others) (callback (items w i)) w of
            (res, w') \<Rightarrow>
              res = Inr (VBool True) \<and>
              w' = update_message self (update self
                     (emit [SendModal,
                            FollowupSend (close_timeout_message (pcls (pages w self)))] w)) \<and>
              count_list (trace w') (Update self) = Suc (count_list (trace w) (Update self)) \<and>
              count_list (trace w') (UpdateMessage self)
                = Suc (count_list (trace w) (UpdateMessage self)) \<and>
              pages w' = pages w \<and> items w' = items w \<and>
              tasks w' = tasks w \<and> next_tref w' = next_tref w)"
  using assms
  by (simp add: library_body_def close_interaction_def Let_def truthy_attr_def
        close_button_def disable_update_def plain_fn_def)
     (simp add: update_message_def update_def emit_def split: option.splits)

text \<open>
  C6 at the page of \<open>closable_world\<close>, whose component 0 is the wrapped close button:
  the two refresh phases follow the timeout notice.
\<close>

theorem close_timeout_runs_refresh_witness:
  "(case run_callback (library_body \<lparr>modal_timed_out = True, select_values = []\<rparr>
         (\<lambda>v f w. (Inr VNone, w))) (callback (items closable_world 0)) closable_world of
      (res, w') \<Rightarrow>
        res = Inr (VBool True) \<and>
        trace w' = [SendModal, FollowupSend '':sleeping: Modal timed out'',
                    Update 0, UpdateMessage 0, MessageEdit 100 False None 0] \<and>
        \<not> finished (pages w' 0) \<and> ending_task (pages w' 0) = None \<and>
        \<not> disabled (items w' 0) \<and> \<not> disabled (items w' 1))"
  using close_timeout_runs_refresh
    [of closable_world 0 0 "\<lparr>modal_timed_out = True, select_values = []\<rparr>"
        "\<lambda>v f w. (Inr VNone, w)"]
  by (simp add: closable_world_facts close_timeout_message_def sample_closable_def
        library_body_def close_interaction_def Let_def close_button_def
        disable_update_def plain_fn_def truthy_attr_def emit_def update_def
        update_message_def)

text \<open>
  Claim C7: once \<open>stop\<close> has recorded the task of \<open>on_end\<close>, awaiting the page
  suspends the caller on that task, and returns (with \<open>None\<close>) when the task has
  completed; a page with no recorded task returns \<open>None\<close> at once. In general the
  await is suspended exactly as long as the recorded task is not completed.
\<close>

theorem await_editor_joins_on_end:
  "await_editor self (stop self w) = Suspended (next_tref w) \<and>
   await_editor self (run_task (next_tref w) (stop self w)) = Returned VNone \<and>
   (ending_task (pages w self) = None \<longrightarrow> await_editor self w = Returned VNone) \<and>
   (\<forall>t. ending_task (pages w self) = Some t \<longrightarrow>
      await_editor self w = (if completed (tasks w t) then Returned VNone else Suspended t))"
  by (simp add: await_editor_def Task_await_def never_generator_def stop_def
        create_task_on_end_def View_stop_def set_page_def emit_def run_task_def)

text \<open>
  C7 at the new page of \<open>closable_world\<close>: awaited before any stop, after \<open>stop\<close>,
  and after the task of \<open>on_end\<close> has run.
\<close>

theorem await_editor_joins_on_end_witness:
  "await_editor 0 closable_world = Returned VNone \<and>
   await_editor 0 (stop 0 closable_world) = Suspended 0 \<and>
   await_editor 0 (run_task 0 (stop 0 closable_world)) = Returned VNone"
  using await_editor_joins_on_end [of 0 closable_world]
  by (simp add: closable_world_facts)

section \<open>The processing guard (base.py)\<close>

lemma aenter_loop_frame:
  "pages (aenter_loop g xs w) = pages w"
  "trace (aenter_loop g xs w) = trace w"
  "tasks (aenter_loop g xs w) = tasks w"
  "editor (guards (aenter_loop g xs w) g) = editor (guards w g)"
  by (induction xs arbitrary: w) (simp_all add: set_item_def set_guard_def)

lemma aenter_loop_items:
  "items (aenter_loop g xs w) j =
     (if j \<in> set xs then (items w j)\<lparr>disabled := True\<rparr> else items w j)"
  by (induction xs arbitrary: w) (auto simp: set_item_def set_guard_def)

lemma aenter_loop_appends:
  "\<exists>new. disabled_items (guards (aenter_loop g xs w) g) = disabled_items (guards w g) @ new \<and>
         set new = {i \<in> set xs. \<not> disabled (items w i)}"
proof (induction xs arbitrary: w)
  case Nil
  then show ?case by simp
next
  case (Cons i rest)
  let ?w' = "set_item i (\<lambda>it. it\<lparr>disabled := True\<rparr>)
          (if \<not> disabled (items w i)
           then set_guard g (\<lambda>gd. gd\<lparr>disabled_items := disabled_items gd @ [i]\<rparr>) w
           else w)"
  from Cons.IH [of ?w'] obtain new where
    new: "disabled_items (guards (aenter_loop g rest ?w') g) = disabled_items (guards ?w' g) @ new"
      "set new = {j \<in> set rest. \<not> disabled (items ?w' j)}"
    by blast
  have g': "disabled_items (guards ?w' g) =
      disabled_items (guards w g) @ (if \<not> disabled (items w i) then [i] else [])"
    by (simp add: set_item_def set_guard_def)
  have it': "\<And>j. disabled (items ?w' j) = (j = i \<or> disabled (items w j))"
    by (simp add: set_item_def set_guard_def)
  let ?new = "(if \<not> disabled (items w i) then [i] else []) @ new"
  have "disabled_items (guards (aenter_loop g (i # rest) w) g) = disabled_items (guards w g) @ ?new"
    using new(1) g' by simp
  moreover have "set ?new = {j \<in> set (i # rest). \<not> disabled (items w j)}"
    using new(2) it' by auto
  ultimately show ?case by blast
qed



lemma update_message_frame:
  "items (update_message r w) = items w"
  "guards (update_message r w) = guards w"
  "pages (update_message r w) = pages w"
  "tasks (update_message r w) = tasks w"
  by (simp_all add: update_message_def emit_def split: option.splits)

lemma update_message_count:
  "count_list (trace (update_message r w)) (UpdateMessage r) =
     Suc (count_list (trace w) (UpdateMessage r))"
  by (simp add: update_message_def emit_def split: option.splits)

lemma enter_eq:
  "aenter g (set_guard g (\<lambda>gd. gd\<lparr>editor := Some e\<rparr>) w) = (Inr (), enter g e w)"
  by (simp add: enter_def aenter_def set_guard_def)

lemma enter_facts:
  "pages (enter g e w) = pages w"
  "editor (guards (enter g e w) g) = Some e"
  "items (enter g e w) j =
     (if j \<in> set (children (pages w e)) then (items w j)\<lparr>disabled := True\<rparr> else items w j)"
  "count_list (trace (enter g e w)) (UpdateMessage e) = Suc (count_list (trace w) (UpdateMessage e))"
  by (simp_all add: enter_def aenter_def set_guard_def update_message_frame aenter_loop_frame
        aenter_loop_items update_message_count)

lemma enter_appends:
  "\<exists>new. disabled_items (guards (enter g e w) g) = disabled_items (guards w g) @ new \<and>
         set new = {i \<in> set (children (pages w e)). \<not> disabled (items w i)}"
  using aenter_loop_appends
    [of g "children (pages w e)" "set_guard g (\<lambda>gd. gd\<lparr>editor := Some e\<rparr>) w"]
  by (simp add: enter_def aenter_def set_guard_def update_message_frame)

lemma enter_other:
  "next_gref (enter g e w) = next_gref w"
  "g' \<noteq> g \<Longrightarrow> guards (enter g e w) g' = guards w g'"
proof -
  have "next_gref (aenter_loop g xs v) = next_gref v \<and>
        (g' \<noteq> g \<longrightarrow> guards (aenter_loop g xs v) g' = guards v g')" for xs v
    by (induction xs arbitrary: v) (simp_all add: set_item_def set_guard_def)
  then show "next_gref (enter g e w) = next_gref w"
    and "g' \<noteq> g \<Longrightarrow> guards (enter g e w) g' = guards w g'"
    by (simp_all add: enter_def aenter_def set_guard_def update_message_def emit_def
          split: option.splits)
qed




text \<open>
  Claim C10. Applying the decorator creates one guard object, with an empty list and no
  editor; the decorated function is that object, so every call of it, for whichever
  page, is \<open>guard_call\<close> on that one guard. Constructing a page creates no guard and
  changes none, and neither does a call. A call stores its page in the guard's editor
  field, replacing what was there, appends the page's enabled components to the list
  the guard already holds, and runs the function in that state; the exit step follows.
\<close>

theorem guard_state_is_shared:
  "disable_when_processing_init True w =
     (Inr (next_gref w),
      w\<lparr>guards := (guards w)(next_gref w := \<lparr>disabled_items = [], editor = None\<rparr>),
        next_gref := Suc (next_gref w)\<rparr>) \<and>
   guards (snd (instantiate c msg emb parent_arg w)) = guards w \<and>
   next_gref (snd (instantiate c msg emb parent_arg w)) = next_gref w \<and>
   guard_call g e func w =
     (case func (enter g e w) of
        (res, w2) \<Rightarrow>
          (case aexit g w2 of
             (Inl x, w3) \<Rightarrow> (Inl x, w3)
           | (Inr u, w3) \<Rightarrow> (res, w3))) \<and>
   editor (guards (enter g e w) g) = Some e \<and>
   (\<exists>new. disabled_items (guards (enter g e w) g) = disabled_items (guards w g) @ new \<and>
          set new = {i \<in> set (children (pages w e)). \<not> disabled (items w i)}) \<and>
   pages (enter g e w) = pages w \<and>
   next_gref (enter g e w) = next_gref w \<and>
   (\<forall>g'. g' \<noteq> g \<longrightarrow> guards (enter g e w) g' = guards w g')"
  using enter_appends [of g e w]
  by (simp add: disable_when_processing_init_def instantiate_guards enter_facts enter_other
        guard_call_def enter_eq)

text \<open>
  C10 with two pages of one class and their one guard. A call for page 0 is entered and
  its function is a call for page 1: the innermost function finds the components of
  both pages, four, in the guard's list, and the guard's editor is page 1. Both exit
  steps then render page 1: \<open>update_message\<close> runs once for page 0 and three times
  for page 1.
\<close>

theorem guard_state_is_shared_witness:
  "next_gref two_pages_world = 1 \<and>
   disabled_items (guards two_pages_world 0) = [] \<and>
   editor (guards (enter 0 0 two_pages_world) 0) = Some 0 \<and>
   disabled_items (guards (enter 0 0 two_pages_world) 0) = [0, 1] \<and>
   editor (guards (enter 0 1 (enter 0 0 two_pages_world)) 0) = Some 1 \<and>
   disabled_items (guards (enter 0 1 (enter 0 0 two_pages_world)) 0) = [0, 1, 2, 3] \<and>
   fst (guard_call 0 0 (guard_call 0 1 probe_func) two_pages_world) = Inr (VOther 4) \<and>
   count_list (trace (snd (guard_call 0 0 (guard_call 0 1 probe_func) two_pages_world)))
     (UpdateMessage 0) = 1 \<and>
   count_list (trace (snd (guard_call 0 0 (guard_call 0 1 probe_func) two_pages_world)))
     (UpdateMessage 1) = 3"
proof -
  have c: "next_gref two_pages_world = 1"
    "disabled_items (guards two_pages_world 0) = []"
    "disabled_items (guards (enter 0 0 two_pages_world) 0) = [0, 1]"
    "disabled_items (guards (enter 0 1 (enter 0 0 two_pages_world)) 0) = [0, 1, 2, 3]"
    "count_list (trace (snd (guard_call 0 0 (guard_call 0 1 probe_func) two_pages_world)))
       (UpdateMessage 0) = 1"
    "count_list (trace (snd (guard_call 0 0 (guard_call 0 1 probe_func) two_pages_world)))
       (UpdateMessage 1) = 3"
    by code_simp+
  have e1: "editor (guards (enter 0 0 two_pages_world) 0) = Some 0"
    using guard_state_is_shared [of two_pages_world sample_closable None None None 0 0]
    by blast
  have e2: "editor (guards (enter 0 1 (enter 0 0 two_pages_world)) 0) = Some 1"
    using guard_state_is_shared
      [of "enter 0 0 two_pages_world" sample_closable None None None 0 1]
    by blast
  have call: "fst (guard_call 0 0 (guard_call 0 1 probe_func) two_pages_world) = Inr (VOther 4)"
    by code_simp
  from c e1 e2 call show ?thesis by simp
qed

section \<open>Wrapped callbacks (base.py, menu.py)\<close>

lemma run_wrapper_bound:
  "run_callback body (Wrapper self (Bound v d)) w2 =
     (case body v (fn_of d) w2 of
        (Inl e, w3) \<Rightarrow> (Inl e, w3)
      | (Inr response, w3) \<Rightarrow> (Inr response, update_message self (update self w3)))"
  by (simp add: Let_def truthy_attr_def split: prod.splits sum.splits)

text \<open>
  Claim C8 says that a callback marked by \<open>disable_update\<close> skips the phases it is
  marked for. In a newly constructed page the callback of every declared component is
  the closure of \<open>wraps_update\<close> around the bound function, once. Running it runs the
  function; when the function raises, nothing follows; when it returns, \<open>update\<close>
  and then \<open>update_message\<close> run, also for a function that is marked, since the marks
  are not found on \<open>item.callback\<close>. The selection component of a menu page is added
  after the wrapping: its callback is the bound function itself, and running it runs
  the function and nothing else. \<open>add_item\<close> stores a component as it is.
\<close>

theorem callbacks_wrapped_at_construction:
  assumes ok: "takes_parent (kind c) = (parent_arg \<noteq> None)"
  shows
    "(\<forall>k<length (class_components c).
        children (pages (snd (instantiate c msg emb parent_arg w)) (next_ref w)) ! k
          = next_iref w + k \<and>
        callback (items (snd (instantiate c msg emb parent_arg w)) (next_iref w + k))
          = Wrapper (next_ref w) (Bound (next_ref w) (class_components c ! k)) \<and>
        wrap_depth (callback (items (snd (instantiate c msg emb parent_arg w)) (next_iref w + k)))
          = 1 \<and>
        (\<forall>body w2.
           run_callback body
             (callback (items (snd (instantiate c msg emb parent_arg w)) (next_iref w + k))) w2 =
           (case body (next_ref w) (fn_of (class_components c ! k)) w2 of
              (Inl e, w3) \<Rightarrow> (Inl e, w3)
            | (Inr response, w3) \<Rightarrow>
                (Inr response, update_message (next_ref w) (update (next_ref w) w3))))) \<and>
     (kind c = Menu \<longrightarrow>
        children (pages (snd (instantiate c msg emb parent_arg w)) (next_ref w))
          = [next_iref w ..< next_iref w + length (class_components c)]
            @ [next_iref w + length (class_components c)] \<and>
        callback (items (snd (instantiate c msg emb parent_arg w))
                    (next_iref w + length (class_components c)))
          = Bound (next_ref w) (plain_fn MenuSelectCallback) \<and>
        wrap_depth (callback (items (snd (instantiate c msg emb parent_arg w))
                    (next_iref w + length (class_components c)))) = 0 \<and>
        (\<forall>body w2.
           run_callback body
             (callback (items (snd (instantiate c msg emb parent_arg w))
                    (next_iref w + length (class_components c)))) w2 =
           body (next_ref w) MenuSelectCallback w2)) \<and>
     (\<forall>p it w2. items (add_item p it w2) (next_iref w2) = it)"
proof -
  let ?W = "snd (instantiate c msg emb parent_arg w)"
  have wrapped: "callback (items ?W (next_iref w + k))
          = Wrapper (next_ref w) (Bound (next_ref w) (class_components c ! k))"
    if "k < length (class_components c)" for k
    using instantiate_items_new [OF ok that] by simp
  have nth: "children (pages ?W (next_ref w)) ! k = next_iref w + k"
    if "k < length (class_components c)" for k
    using that by (simp add: instantiate_children [OF ok] nth_append)
  have part1: "\<forall>k<length (class_components c).
        children (pages ?W (next_ref w)) ! k = next_iref w + k \<and>
        callback (items ?W (next_iref w + k))
          = Wrapper (next_ref w) (Bound (next_ref w) (class_components c ! k)) \<and>
        wrap_depth (callback (items ?W (next_iref w + k))) = 1 \<and>
        (\<forall>body w2.
           run_callback body (callback (items ?W (next_iref w + k))) w2 =
           (case body (next_ref w) (fn_of (class_components c ! k)) w2 of
              (Inl e, w3) \<Rightarrow> (Inl e, w3)
            | (Inr response, w3) \<Rightarrow>
                (Inr response, update_message (next_ref w) (update (next_ref w) w3))))"
  proof (intro allI impI)
    fix k
    assume k: "k < length (class_components c)"
    show "children (pages ?W (next_ref w)) ! k = next_iref w + k \<and>
        callback (items ?W (next_iref w + k))
          = Wrapper (next_ref w) (Bound (next_ref w) (class_components c ! k)) \<and>
        wrap_depth (callback (items ?W (next_iref w + k))) = 1 \<and>
        (\<forall>body w2.
           run_callback body (callback (items ?W (next_iref w + k))) w2 =
           (case body (next_ref w) (fn_of (class_components c ! k)) w2 of
              (Inl e, w3) \<Rightarrow> (Inl e, w3)
            | (Inr response, w3) \<Rightarrow>
                (Inr response, update_message (next_ref w) (update (next_ref w) w3))))"
      unfolding wrapped [OF k] nth [OF k] run_wrapper_bound by simp
  qed
  have part2: "children (pages ?W (next_ref w))
          = [next_iref w ..< next_iref w + length (class_components c)]
            @ [next_iref w + length (class_components c)] \<and>
        callback (items ?W (next_iref w + length (class_components c)))
          = Bound (next_ref w) (plain_fn MenuSelectCallback) \<and>
        wrap_depth (callback (items ?W (next_iref w + length (class_components c)))) = 0 \<and>
        (\<forall>body w2.
           run_callback body
             (callback (items ?W (next_iref w + length (class_components c)))) w2 =
           body (next_ref w) MenuSelectCallback w2)"
    if menu: "kind c = Menu"
  proof -
    from ok menu have pa: "parent_arg = None"
      by (simp add: takes_parent_def)
    show ?thesis
      using instantiate_children [OF ok, of msg emb w]
      by (simp add: menu pa instantiate_menu_select plain_fn_def)
  qed
  have part3: "\<forall>p it w2. items (add_item p it w2) (next_iref w2) = it"
    by (simp add: add_item_def)
  from part1 part2 part3 show ?thesis by blast
qed

text \<open>
  C8 at the menu page of \<open>menu_world\<close>: a plain callback, a callback marked to skip
  \<open>update\<close>, after which \<open>update\<close> runs all the same, and the selection component.
\<close>

theorem callbacks_wrapped_at_construction_witness:
  "children (pages menu_world 0) = [0, 1, 2] \<and>
   callback (items menu_world 0) = Wrapper 0 (Bound 0 (plain_fn (UserFn 0))) \<and>
   callback (items menu_world 1) =
     Wrapper 0 (Bound 0 (disable_update True False (plain_fn (UserFn 1)))) \<and>
   callback (items menu_world 2) = Bound 0 (plain_fn MenuSelectCallback) \<and>
   trace (snd (run_callback ok_body (callback (items menu_world 0)) menu_world)) =
     [Update 0, UpdateMessage 0, MessageEdit 100 False None 0] \<and>
   trace (snd (run_callback ok_body (callback (items menu_world 1)) menu_world)) =
     [Update 0, UpdateMessage 0, MessageEdit 100 False None 0] \<and>
   trace (snd (run_callback failing_body (callback (items menu_world 0)) menu_world)) = [] \<and>
   trace (snd (run_callback ok_body (callback (items menu_world 2)) menu_world)) = []"
proof -
  have ok: "takes_parent (kind sample_menu) = ((None :: ref option) \<noteq> None)"
    by (simp add: sample_menu_def takes_parent_def)
  have conc: "children (pages menu_world 0) = [0, 1, 2]"
    "trace (snd (run_callback ok_body (callback (items menu_world 0)) menu_world)) =
       [Update 0, UpdateMessage 0, MessageEdit 100 False None 0]"
    "trace (snd (run_callback ok_body (callback (items menu_world 1)) menu_world)) =
       [Update 0, UpdateMessage 0, MessageEdit 100 False None 0]"
    "trace (snd (run_callback failing_body (callback (items menu_world 0)) menu_world)) = []"
    "trace (snd (run_callback ok_body (callback (items menu_world 2)) menu_world)) = []"
    by code_simp+
  have cc: "class_components sample_menu =
      [plain_fn (UserFn 0), disable_update True False (plain_fn (UserFn 1))]"
    "kind sample_menu = Menu"
    by (simp_all add: class_components_def library_components_def sample_menu_def)
  have e: "next_iref empty_world = 0" "next_ref empty_world = 0"
    by (simp_all add: empty_world_def)
  from callbacks_wrapped_at_construction [OF ok, of "Some 100" None empty_world]
  have "callback (items menu_world 0) = Wrapper 0 (Bound 0 (plain_fn (UserFn 0)))"
    "callback (items menu_world 1) =
       Wrapper 0 (Bound 0 (disable_update True False (plain_fn (UserFn 1))))"
    "callback (items menu_world 2) = Bound 0 (plain_fn MenuSelectCallback)"
    unfolding cc e menu_world_def [symmetric]
    by (auto simp: All_less_Suc numeral_2_eq_2 dest: spec [of _ 0])
  with conc show ?thesis by simp
qed

end
